theory Spec2Isabelle
  imports Main "HOL-Library.Sublist"
begin

section \<open>The table extension base class of reverb (reverb/cc/table_extensions/base.cc)\<close>

subsection \<open>Pointers, tables and the memory they live in\<close>

text \<open>
  A \<open>Table*\<close> and an \<open>absl::Mutex*\<close> are addresses; the null pointer is address 0, and
  the C++ condition \<open>if (table_)\<close> is the test \<open>table_ \<noteq> nullptr\<close>.
\<close>

type_synonym Table_ptr = nat
type_synonym Mutex_ptr = nat

definition nullptr :: nat where
  "nullptr = 0"

text \<open>
  Modelled from the spec: the class \<open>Table\<close> is declared in reverb/cc/table.h, which is not
  among the sources. \<open>RegisterTable\<close> uses one thing of it, \<open>table->name()\<close>; the spec calls
  it the table's name, so a table object is the record of its name.
\<close>

record Table =
  name :: string

text \<open>
  The memory holds the live \<open>Table\<close> objects (\<open>deref\<close>, undefined at an address where no
  table lives, the null pointer among them) and the text that streaming a pointer gives
  (\<open>show_ptr\<close>: implementation defined in C++, so it is a parameter).
\<close>

record memory =
  deref :: "Table_ptr \<rightharpoonup> Table"
  show_ptr :: "Table_ptr \<Rightarrow> string"

subsection \<open>How a call ends\<close>

text \<open>
  A call returns a value, or the process is aborted by a failed check (with the text streamed
  into the check), or it dereferences a pointer to no object, which C++ leaves undefined.
\<close>

datatype 'a outcome = Returns 'a | Aborts string | Undefined_behaviour

text \<open>
  Modelled from the spec: the macro \<open>REVERB_CHECK_EQ\<close> is defined in
  reverb/cc/platform/logging.h, which is not among the sources. By the spec a violated check
  is fatal: the process aborts and the call does not return. When both sides are equal the
  check does nothing.
\<close>

definition REVERB_CHECK_EQ :: "'a \<Rightarrow> 'a \<Rightarrow> string \<Rightarrow> unit outcome" where
  "REVERB_CHECK_EQ a b msg = (if a = b then Returns () else Aborts msg)"

subsection \<open>tensorflow::Status\<close>

text \<open>
  The two status codes that base.cc produces. \<open>tensorflow::Status::OK()\<close> has code \<open>OK\<close> and
  an empty message; \<open>tensorflow::errors::FailedPrecondition(args...)\<close> has code
  \<open>FAILED_PRECONDITION\<close> and the concatenation of its arguments as message.
\<close>

datatype Code = OK | FAILED_PRECONDITION

record Status =
  code :: Code
  error_message :: string

definition Status_OK :: Status where
  "Status_OK = \<lparr>code = OK, error_message = []\<rparr>"

definition FailedPrecondition :: "string list \<Rightarrow> Status" where
  "FailedPrecondition args = \<lparr>code = FAILED_PRECONDITION, error_message = concat args\<rparr>"

subsection \<open>The object\<close>

text \<open>
  \<open>PriorityTableExtensionBase\<close> has one data member, \<open>table_\<close>, written \<open>table_field\<close>
  here since no name ends with an underscore in Isabelle. The record is extensible:
  the members that a derived class adds are the record's extension, of type \<open>'s\<close>.
\<close>

record PriorityTableExtensionBase =
  table_field :: Table_ptr

text \<open>
  Modelled from the spec: the class declaration (reverb/cc/table_extensions/base.h) is not
  among the sources. By the spec an extension is constructed unbound, its \<open>Apply*\<close> methods
  are overridable, an override reads and mutates the extension's own internal state and has no
  error channel, and the back-reference is written by \<open>Register\<close> and \<open>Unregister\<close> only and
  read-only elsewhere. So an override is a function from the item and the object to the new
  values of the derived class's members, and a virtual call stores these values in the
  object.
\<close>

definition fresh :: "'s \<Rightarrow> 's PriorityTableExtensionBase_scheme" where
  "fresh s = \<lparr>table_field = nullptr, \<dots> = s\<rparr>"

record ('item, 's) vtable =
  slot_ApplyOnDelete :: "'item \<Rightarrow> 's PriorityTableExtensionBase_scheme \<Rightarrow> 's"
  slot_ApplyOnInsert :: "'item \<Rightarrow> 's PriorityTableExtensionBase_scheme \<Rightarrow> 's"
  slot_ApplyOnReset :: "'s PriorityTableExtensionBase_scheme \<Rightarrow> 's"
  slot_ApplyOnUpdate :: "'item \<Rightarrow> 's PriorityTableExtensionBase_scheme \<Rightarrow> 's"
  slot_ApplyOnSample :: "'item \<Rightarrow> 's PriorityTableExtensionBase_scheme \<Rightarrow> 's"

definition virtual_call ::
  "('s PriorityTableExtensionBase_scheme \<Rightarrow> 's) \<Rightarrow>
   's PriorityTableExtensionBase_scheme \<Rightarrow> 's PriorityTableExtensionBase_scheme" where
  "virtual_call body this = \<lparr>table_field = table_field this, \<dots> = body this\<rparr>"

subsection \<open>RegisterTable and UnregisterTable\<close>

text \<open>
  Both arguments of the message that are names are \<open>table->name()\<close>, as in the source. When
  the extension is bound, building the message calls \<open>name()\<close> through \<open>table\<close>.
\<close>

definition RegisterTable ::
  "memory \<Rightarrow> Table_ptr \<Rightarrow> 's PriorityTableExtensionBase_scheme \<Rightarrow>
   (Status \<times> 's PriorityTableExtensionBase_scheme) outcome" where
  "RegisterTable m table this =
     (if table_field this \<noteq> nullptr then
        (case deref m table of
           None \<Rightarrow> Undefined_behaviour
         | Some T \<Rightarrow>
             Returns (FailedPrecondition
               [''Attempting to registering a table '', show_ptr m table, '' (name: '', name T,
                '') with extension that has already been '', ''registered with: '',
                show_ptr m (table_field this), '' (name: '', name T, '')''], this))
      else Returns (Status_OK, this\<lparr>table_field := table\<rparr>))"

definition UnregisterTable ::
  "Mutex_ptr \<Rightarrow> Table_ptr \<Rightarrow> 's PriorityTableExtensionBase_scheme \<Rightarrow>
   's PriorityTableExtensionBase_scheme outcome" where
  "UnregisterTable mu table this =
     (case REVERB_CHECK_EQ table (table_field this)
             ''The wrong Table attempted to unregister this extension.'' of
        Returns _ \<Rightarrow> Returns (this\<lparr>table_field := nullptr\<rparr>)
      | Aborts msg \<Rightarrow> Aborts msg
      | Undefined_behaviour \<Rightarrow> Undefined_behaviour)"

subsection \<open>The dispatch entry points and the default hooks\<close>

definition OnDelete ::
  "('item, 's) vtable \<Rightarrow> Mutex_ptr \<Rightarrow> 'item \<Rightarrow>
   's PriorityTableExtensionBase_scheme \<Rightarrow> 's PriorityTableExtensionBase_scheme" where
  "OnDelete vt mu item this = virtual_call (slot_ApplyOnDelete vt item) this"

definition OnInsert ::
  "('item, 's) vtable \<Rightarrow> Mutex_ptr \<Rightarrow> 'item \<Rightarrow>
   's PriorityTableExtensionBase_scheme \<Rightarrow> 's PriorityTableExtensionBase_scheme" where
  "OnInsert vt mu item this = virtual_call (slot_ApplyOnInsert vt item) this"

definition OnReset ::
  "('item, 's) vtable \<Rightarrow> Mutex_ptr \<Rightarrow>
   's PriorityTableExtensionBase_scheme \<Rightarrow> 's PriorityTableExtensionBase_scheme" where
  "OnReset vt mu this = virtual_call (slot_ApplyOnReset vt) this"

definition OnUpdate ::
  "('item, 's) vtable \<Rightarrow> Mutex_ptr \<Rightarrow> 'item \<Rightarrow>
   's PriorityTableExtensionBase_scheme \<Rightarrow> 's PriorityTableExtensionBase_scheme" where
  "OnUpdate vt mu item this = virtual_call (slot_ApplyOnUpdate vt item) this"

definition OnSample ::
  "('item, 's) vtable \<Rightarrow> Mutex_ptr \<Rightarrow> 'item \<Rightarrow>
   's PriorityTableExtensionBase_scheme \<Rightarrow> 's PriorityTableExtensionBase_scheme" where
  "OnSample vt mu item this = virtual_call (slot_ApplyOnSample vt item) this"

text \<open>The bodies of the base class are empty: the members keep their values.\<close>

definition ApplyOnDelete :: "'item \<Rightarrow> 's PriorityTableExtensionBase_scheme \<Rightarrow> 's" where
  "ApplyOnDelete item this = PriorityTableExtensionBase.more this"

definition ApplyOnInsert :: "'item \<Rightarrow> 's PriorityTableExtensionBase_scheme \<Rightarrow> 's" where
  "ApplyOnInsert item this = PriorityTableExtensionBase.more this"

definition ApplyOnReset :: "'s PriorityTableExtensionBase_scheme \<Rightarrow> 's" where
  "ApplyOnReset this = PriorityTableExtensionBase.more this"

definition ApplyOnUpdate :: "'item \<Rightarrow> 's PriorityTableExtensionBase_scheme \<Rightarrow> 's" where
  "ApplyOnUpdate item this = PriorityTableExtensionBase.more this"

definition ApplyOnSample :: "'item \<Rightarrow> 's PriorityTableExtensionBase_scheme \<Rightarrow> 's" where
  "ApplyOnSample item this = PriorityTableExtensionBase.more this"

text \<open>A class that overrides nothing dispatches to the bodies of the base class.\<close>

definition base_vtable :: "('item, 's) vtable" where
  "base_vtable =
     \<lparr>slot_ApplyOnDelete = ApplyOnDelete, slot_ApplyOnInsert = ApplyOnInsert,
      slot_ApplyOnReset = ApplyOnReset, slot_ApplyOnUpdate = ApplyOnUpdate,
      slot_ApplyOnSample = ApplyOnSample\<rparr>"

subsection \<open>The table as caller\<close>

text \<open>
  The table is the only caller of an extension. A call of the interface is a value of
  \<open>call\<close>; \<open>invoke\<close> performs one call and gives back what the method returned (a status for
  \<open>RegisterTable\<close>, nothing for the \<open>void\<close> methods) with the object afterwards; \<open>run\<close>
  performs a sequence of calls on the same object and keeps the history of calls and
  replies. An aborted process performs no further call.
\<close>

datatype 'item call =
    Register Table_ptr
  | Unregister Mutex_ptr Table_ptr
  | Delete Mutex_ptr 'item
  | Insert Mutex_ptr 'item
  | Reset Mutex_ptr
  | Update Mutex_ptr 'item
  | Sample Mutex_ptr 'item

fun invoke ::
  "('item, 's) vtable \<Rightarrow> memory \<Rightarrow> 'item call \<Rightarrow> 's PriorityTableExtensionBase_scheme \<Rightarrow>
   (Status option \<times> 's PriorityTableExtensionBase_scheme) outcome" where
  "invoke vt m (Register table) this =
     map_outcome (\<lambda>(st, this'). (Some st, this')) (RegisterTable m table this)"
| "invoke vt m (Unregister mu table) this =
     map_outcome (\<lambda>this'. (None, this')) (UnregisterTable mu table this)"
| "invoke vt m (Delete mu item) this = Returns (None, OnDelete vt mu item this)"
| "invoke vt m (Insert mu item) this = Returns (None, OnInsert vt mu item this)"
| "invoke vt m (Reset mu) this = Returns (None, OnReset vt mu this)"
| "invoke vt m (Update mu item) this = Returns (None, OnUpdate vt mu item this)"
| "invoke vt m (Sample mu item) this = Returns (None, OnSample vt mu item this)"

fun run ::
  "('item, 's) vtable \<Rightarrow> memory \<Rightarrow> 'item call list \<Rightarrow> 's PriorityTableExtensionBase_scheme \<Rightarrow>
   (('item call \<times> Status option) list \<times> 's PriorityTableExtensionBase_scheme) outcome" where
  "run vt m [] this = Returns ([], this)"
| "run vt m (c # cs) this =
     (case invoke vt m c this of
        Returns (r, this') \<Rightarrow>
          map_outcome (\<lambda>(h, this''). ((c, r) # h, this'')) (run vt m cs this')
      | Aborts msg \<Rightarrow> Aborts msg
      | Undefined_behaviour \<Rightarrow> Undefined_behaviour)"

fun is_hook :: "'item call \<Rightarrow> bool" where
  "is_hook (Register table) = False"
| "is_hook (Unregister mu table) = False"
| "is_hook c = True"

text \<open>
  The spec's reading of the back-reference, on a history given most recent call first: the
  table argument of the most recent successful Register that no Unregister has followed, and
  \<open>before\<close> (the null pointer for a fresh extension) when the history has no such call.
\<close>

fun most_recent_binding :: "Table_ptr \<Rightarrow> ('item call \<times> Status option) list \<Rightarrow> Table_ptr" where
  "most_recent_binding before [] = before"
| "most_recent_binding before ((Register table, Some st) # h) =
     (if code st = OK then table else most_recent_binding before h)"
| "most_recent_binding before ((Unregister mu table, r) # h) = nullptr"
| "most_recent_binding before (e # h) = most_recent_binding before h"

text \<open>The tables an extension is bound to: none when the back-reference is null.\<close>

definition bound_tables :: "'s PriorityTableExtensionBase_scheme \<Rightarrow> Table_ptr set" where
  "bound_tables this = (if table_field this = nullptr then {} else {table_field this})"

text \<open>
  A memory with two tables, \<open>alpha\<close> at address 1 and \<open>beta\<close> at address 2, for the concrete
  inputs below.
\<close>

definition two_tables :: memory where
  "two_tables =
     \<lparr>deref = [1 \<mapsto> \<lparr>name = ''alpha''\<rparr>, 2 \<mapsto> \<lparr>name = ''beta''\<rparr>],
      show_ptr = (\<lambda>p. if p = 1 then ''0x1'' else if p = 2 then ''0x2'' else ''0x0'')\<rparr>"

section \<open>Properties\<close>

subsection \<open>Registration\<close>

text \<open>
  C1. Register on an extension that is bound (to the same table or to another one) returns a
  status with code \<open>FAILED_PRECONDITION\<close> and leaves the object, and so the back-reference,
  as it was; Register on an unbound extension stores the given table in the back-reference
  and returns \<open>OK\<close>. In the bound case the argument points to a table, which is the spec's
  precondition on it.
\<close>

theorem RegisterTable_bound_or_unbound:
  "(table_field this \<noteq> nullptr \<and> deref m table = Some T \<longrightarrow>
      (\<exists>st. RegisterTable m table this = Returns (st, this) \<and> code st = FAILED_PRECONDITION))
 \<and> (table_field this = nullptr \<longrightarrow>
      (\<exists>st. RegisterTable m table this = Returns (st, this\<lparr>table_field := table\<rparr>)
           \<and> code st = OK))"
  by (simp add: RegisterTable_def FailedPrecondition_def Status_OK_def)

theorem RegisterTable_bound_or_unbound_witness:
  "(\<exists>st. RegisterTable two_tables 2 \<lparr>table_field = 1\<rparr> = Returns (st, \<lparr>table_field = 1\<rparr>)
        \<and> code st = FAILED_PRECONDITION)
 \<and> (\<exists>st. RegisterTable two_tables 1 \<lparr>table_field = 1\<rparr> = Returns (st, \<lparr>table_field = 1\<rparr>)
        \<and> code st = FAILED_PRECONDITION)
 \<and> (\<exists>st. RegisterTable two_tables 2 (fresh ())
          = Returns (st, (fresh ())\<lparr>table_field := 2\<rparr>)
        \<and> code st = OK)"
proof (intro conjI)
  have bound: "table_field \<lparr>table_field = 1\<rparr> \<noteq> nullptr"
    by (simp add: nullptr_def)
  have beta: "deref two_tables 2 = Some \<lparr>name = ''beta''\<rparr>"
    and alpha: "deref two_tables 1 = Some \<lparr>name = ''alpha''\<rparr>"
    by (simp_all add: two_tables_def)
  have unbound: "table_field (fresh ()) = nullptr"
    by (simp add: fresh_def)
  from bound beta
    RegisterTable_bound_or_unbound [of "\<lparr>table_field = 1\<rparr>" two_tables 2 "\<lparr>name = ''beta''\<rparr>"]
  show "\<exists>st. RegisterTable two_tables 2 \<lparr>table_field = 1\<rparr> = Returns (st, \<lparr>table_field = 1\<rparr>)
        \<and> code st = FAILED_PRECONDITION"
    by blast
  from bound alpha
    RegisterTable_bound_or_unbound [of "\<lparr>table_field = 1\<rparr>" two_tables 1 "\<lparr>name = ''alpha''\<rparr>"]
  show "\<exists>st. RegisterTable two_tables 1 \<lparr>table_field = 1\<rparr> = Returns (st, \<lparr>table_field = 1\<rparr>)
        \<and> code st = FAILED_PRECONDITION"
    by blast
  from unbound
    RegisterTable_bound_or_unbound [of "fresh ()" two_tables 2 "\<lparr>name = ''beta''\<rparr>"]
  show "\<exists>st. RegisterTable two_tables 2 (fresh ())
          = Returns (st, (fresh ())\<lparr>table_field := 2\<rparr>)
        \<and> code st = OK"
    by blast
qed

text \<open>
  Outside that precondition, with the extension bound and no table at the argument's address
  (the null pointer, for one), building the message dereferences the argument.
\<close>

lemma RegisterTable_bound_no_table:
  assumes "table_field this \<noteq> nullptr" and "deref m table = None"
  shows "RegisterTable m table this = Undefined_behaviour"
  using assms by (simp add: RegisterTable_def)

text \<open>
  C2. Unregister with an argument that is not the bound table aborts the process: the call
  does not return. With the argument equal to the binding the check passes, the call returns
  and the back-reference is null afterwards.
\<close>

theorem UnregisterTable_aborts_on_mismatch:
  "(table \<noteq> table_field this \<longrightarrow>
      (\<exists>msg. UnregisterTable mu table this = Aborts msg)
    \<and> (\<forall>this'. UnregisterTable mu table this \<noteq> Returns this'))
 \<and> (table = table_field this \<longrightarrow>
      UnregisterTable mu table this = Returns (this\<lparr>table_field := nullptr\<rparr>))"
  by (simp add: UnregisterTable_def REVERB_CHECK_EQ_def)

theorem UnregisterTable_aborts_on_mismatch_witness:
  "UnregisterTable 7 2 \<lparr>table_field = 1\<rparr>
     = Aborts ''The wrong Table attempted to unregister this extension.''
 \<and> UnregisterTable 7 1 \<lparr>table_field = 1\<rparr> = Returns \<lparr>table_field = 0\<rparr>"
proof -
  have differ: "(2::nat) \<noteq> table_field \<lparr>table_field = 1\<rparr>"
    and same: "(1::nat) = table_field \<lparr>table_field = 1\<rparr>"
    by simp_all
  from differ UnregisterTable_aborts_on_mismatch [of 2 "\<lparr>table_field = 1\<rparr>" 7]
  obtain msg where "UnregisterTable 7 2 \<lparr>table_field = 1\<rparr> = Aborts msg"
    by blast
  then have "UnregisterTable 7 2 \<lparr>table_field = 1\<rparr>
      = Aborts ''The wrong Table attempted to unregister this extension.''"
    by (simp add: UnregisterTable_def REVERB_CHECK_EQ_def split: if_splits)
  moreover from same UnregisterTable_aborts_on_mismatch [of 1 "\<lparr>table_field = 1\<rparr>" 7]
  have "UnregisterTable 7 1 \<lparr>table_field = 1\<rparr> = Returns \<lparr>table_field = 0\<rparr>"
    by (simp add: nullptr_def)
  ultimately show ?thesis
    by simp
qed

text \<open>
  C3. On an unbound extension, Register(T) followed by Unregister(T) succeeds and gives back
  the object as it was, unbound; a Register(T2) after the two then succeeds and binds T2.
\<close>

theorem Register_Unregister_returns_to_unbound:
  assumes "table_field this = nullptr"
  shows "run vt m [Register T, Unregister mu T] this
           = Returns ([(Register T, Some Status_OK), (Unregister mu T, None)], this)
       \<and> run vt m [Register T, Unregister mu T, Register T2] this
           = Returns ([(Register T, Some Status_OK), (Unregister mu T, None),
                       (Register T2, Some Status_OK)], this\<lparr>table_field := T2\<rparr>)"
proof -
  have unbound: "this\<lparr>table_field := nullptr\<rparr> = this"
    using assms by simp
  have reg: "RegisterTable m T this = Returns (Status_OK, this\<lparr>table_field := T\<rparr>)"
    using assms by (simp add: RegisterTable_def)
  have unreg: "UnregisterTable mu T (this\<lparr>table_field := T\<rparr>) = Returns this"
    using unbound by (simp add: UnregisterTable_def REVERB_CHECK_EQ_def)
  have again: "RegisterTable m T2 this = Returns (Status_OK, this\<lparr>table_field := T2\<rparr>)"
    using assms by (simp add: RegisterTable_def)
  show ?thesis
    by (simp add: reg unreg again)
qed

theorem Register_Unregister_returns_to_unbound_witness:
  "table_field (fresh ()) = nullptr
 \<and> run (base_vtable :: (nat, unit) vtable) two_tables [Register 1, Unregister 7 1] (fresh ())
     = Returns ([(Register 1, Some Status_OK), (Unregister 7 1, None)], fresh ())
 \<and> run (base_vtable :: (nat, unit) vtable) two_tables
       [Register 1, Unregister 7 1, Register 2] (fresh ())
     = Returns ([(Register 1, Some Status_OK), (Unregister 7 1, None),
                 (Register 2, Some Status_OK)], (fresh ())\<lparr>table_field := 2\<rparr>)"
proof -
  have unbound: "table_field (fresh ()) = nullptr"
    by (simp add: fresh_def)
  from unbound Register_Unregister_returns_to_unbound [OF unbound, of "base_vtable :: (nat, unit) vtable" two_tables 1 7 2]
  show ?thesis
    by (rule conjI)
qed

text \<open>
  C8. Register with the null pointer on an unbound extension returns \<open>OK\<close>, whatever the
  memory holds, and the object is as before, its back-reference null; a Register with any
  table after it returns \<open>OK\<close> as well and binds that table.
\<close>

theorem RegisterTable_nullptr_unchecked:
  assumes "table_field this = nullptr"
  shows "RegisterTable m nullptr this = Returns (Status_OK, this)
       \<and> run vt m [Register nullptr, Register T2] this
           = Returns ([(Register nullptr, Some Status_OK), (Register T2, Some Status_OK)],
                      this\<lparr>table_field := T2\<rparr>)"
proof -
  have unbound: "this\<lparr>table_field := nullptr\<rparr> = this"
    using assms by simp
  have null: "RegisterTable m nullptr this = Returns (Status_OK, this)"
    using assms unbound by (simp add: RegisterTable_def)
  have again: "RegisterTable m T2 this = Returns (Status_OK, this\<lparr>table_field := T2\<rparr>)"
    using assms by (simp add: RegisterTable_def)
  show ?thesis
    by (simp add: null again)
qed

theorem RegisterTable_nullptr_unchecked_witness:
  "table_field (fresh ()) = nullptr
 \<and> RegisterTable two_tables nullptr (fresh ()) = Returns (Status_OK, fresh ())
 \<and> run (base_vtable :: (nat, unit) vtable) two_tables [Register nullptr, Register 2] (fresh ())
     = Returns ([(Register nullptr, Some Status_OK), (Register 2, Some Status_OK)],
                (fresh ())\<lparr>table_field := 2\<rparr>)"
proof -
  have unbound: "table_field (fresh ()) = nullptr"
    by (simp add: fresh_def)
  from unbound RegisterTable_nullptr_unchecked [OF unbound, of two_tables "base_vtable :: (nat, unit) vtable" 2]
  show ?thesis
    by (rule conjI)
qed

text \<open>
  C4. The error of a refused Register should name the table the extension is bound to and
  the requested table. The message gives both addresses, but both names in it are the name of
  the requested table: bound to \<open>alpha\<close> and asked to register \<open>beta\<close>, the message reads
  \<open>beta\<close> twice and \<open>alpha\<close> does not occur in it.
\<close>

theorem RegisterTable_message_repeats_requested_name:
  "RegisterTable two_tables 2 \<lparr>table_field = 1\<rparr>
     = Returns (\<lparr>code = FAILED_PRECONDITION, error_message =
         ''Attempting to registering a table 0x2 (name: beta) with extension that has already been registered with: 0x1 (name: beta)''\<rparr>,
         \<lparr>table_field = 1\<rparr>)
 \<and> \<not> sublist ''alpha''
         ''Attempting to registering a table 0x2 (name: beta) with extension that has already been registered with: 0x1 (name: beta)''"
proof
  show "RegisterTable two_tables 2 \<lparr>table_field = 1\<rparr>
     = Returns (\<lparr>code = FAILED_PRECONDITION, error_message =
         ''Attempting to registering a table 0x2 (name: beta) with extension that has already been registered with: 0x1 (name: beta)''\<rparr>,
         \<lparr>table_field = 1\<rparr>)"
    by (simp add: RegisterTable_def two_tables_def FailedPrecondition_def nullptr_def)
  show "\<not> sublist ''alpha''
         ''Attempting to registering a table 0x2 (name: beta) with extension that has already been registered with: 0x1 (name: beta)''"
    by code_simp
qed

text \<open>
  The same in general: the outcome of a refused Register is the same in two memories that
  differ only in the table the extension is bound to.
\<close>

lemma RegisterTable_ignores_bound_table:
  assumes "table \<noteq> table_field this"
  shows "RegisterTable (m\<lparr>deref := (deref m)(table_field this := T')\<rparr>) table this
           = RegisterTable m table this"
  using assms by (simp add: RegisterTable_def split: option.split)

subsection \<open>Dispatch\<close>

text \<open>
  C5. Each dispatch entry point returns normally, with no status, and the object it leaves is
  the object with the members that one call of the corresponding hook, on the very item
  passed, gives. This holds whatever the hooks of the class are.
\<close>

theorem dispatch_calls_hook_once:
  "invoke vt m (Delete mu item) this
     = Returns (None, \<lparr>table_field = table_field this, \<dots> = slot_ApplyOnDelete vt item this\<rparr>)
 \<and> invoke vt m (Insert mu item) this
     = Returns (None, \<lparr>table_field = table_field this, \<dots> = slot_ApplyOnInsert vt item this\<rparr>)
 \<and> invoke vt m (Update mu item) this
     = Returns (None, \<lparr>table_field = table_field this, \<dots> = slot_ApplyOnUpdate vt item this\<rparr>)
 \<and> invoke vt m (Sample mu item) this
     = Returns (None, \<lparr>table_field = table_field this, \<dots> = slot_ApplyOnSample vt item this\<rparr>)
 \<and> invoke vt m (Reset mu) this
     = Returns (None, \<lparr>table_field = table_field this, \<dots> = slot_ApplyOnReset vt this\<rparr>)"
  by (simp add: OnDelete_def OnInsert_def OnUpdate_def OnSample_def OnReset_def
      virtual_call_def)

text \<open>
  Seen from a derived class that overrides \<open>ApplyOnSample\<close> alone, to append the item to a
  list: after the samples \<open>items\<close> the list has grown by exactly \<open>items\<close>, in order.
\<close>

lemma logging_override_sees_each_sample:
  "run (base_vtable\<lparr>slot_ApplyOnSample :=
          \<lambda>item this. PriorityTableExtensionBase.more this @ [item]\<rparr>)
       m (map (Sample mu) items) this
     = Returns (map (\<lambda>item. (Sample mu item, None)) items,
                \<lparr>table_field = table_field this,
                 \<dots> = PriorityTableExtensionBase.more this @ items\<rparr>)"
proof (induction items arbitrary: this)
  case Nil
  show ?case by simp
next
  case (Cons item items)
  show ?case
    by (simp add: Cons.IH OnSample_def virtual_call_def)
qed

text \<open>
  C6. On an extension that overrides no hook, a fresh one in particular, any sequence of
  dispatch calls with any items returns normally and leaves the object exactly as it was.
\<close>

theorem default_hooks_have_no_effect:
  assumes "list_all is_hook cs"
  shows "run base_vtable m cs this = Returns (map (\<lambda>c. (c, None)) cs, this)"
  using assms
proof (induction cs)
  case Nil
  show ?case by simp
next
  case (Cons c cs)
  from Cons.prems have hook: "is_hook c" and rest: "list_all is_hook cs"
    by simp_all
  from hook have "invoke base_vtable m c this = Returns (None, this)"
    by (cases c)
      (simp_all add: base_vtable_def virtual_call_def OnDelete_def OnInsert_def OnReset_def
        OnUpdate_def OnSample_def ApplyOnDelete_def ApplyOnInsert_def ApplyOnReset_def
        ApplyOnUpdate_def ApplyOnSample_def)
  with Cons.IH [OF rest] show ?case
    by simp
qed

theorem default_hooks_have_no_effect_witness:
  "list_all is_hook [Insert 7 (3::nat), Sample 7 3, Update 7 3, Delete 7 3, Reset 7]
 \<and> run base_vtable two_tables [Insert 7 (3::nat), Sample 7 3, Update 7 3, Delete 7 3, Reset 7]
       (fresh ())
     = Returns (map (\<lambda>c. (c, None)) [Insert 7 3, Sample 7 3, Update 7 3, Delete 7 3, Reset 7],
                fresh ())"
proof -
  have hooks: "list_all is_hook [Insert 7 (3::nat), Sample 7 3, Update 7 3, Delete 7 3, Reset 7]"
    by simp
  from hooks default_hooks_have_no_effect [OF hooks, of two_tables "fresh ()"]
  show ?thesis
    by (rule conjI)
qed

text \<open>
  C9. The dispatch entry points do not look at the binding: on an unbound extension each of
  them returns normally, and the object afterwards is the unbound object with the members
  that the corresponding hook gave.
\<close>

theorem dispatch_without_binding:
  assumes "table_field this = nullptr"
  shows "invoke vt m (Delete mu item) this = Returns (None, fresh (slot_ApplyOnDelete vt item this))
       \<and> invoke vt m (Insert mu item) this = Returns (None, fresh (slot_ApplyOnInsert vt item this))
       \<and> invoke vt m (Update mu item) this = Returns (None, fresh (slot_ApplyOnUpdate vt item this))
       \<and> invoke vt m (Sample mu item) this = Returns (None, fresh (slot_ApplyOnSample vt item this))
       \<and> invoke vt m (Reset mu) this = Returns (None, fresh (slot_ApplyOnReset vt this))"
  using assms
  by (simp add: OnDelete_def OnInsert_def OnUpdate_def OnSample_def OnReset_def
      virtual_call_def fresh_def)

theorem dispatch_without_binding_witness:
  "table_field (fresh ()) = nullptr
 \<and> invoke (base_vtable :: (nat, unit) vtable) two_tables (Delete 7 3) (fresh ())
     = Returns (None, fresh (slot_ApplyOnDelete (base_vtable :: (nat, unit) vtable) 3 (fresh ())))
 \<and> invoke (base_vtable :: (nat, unit) vtable) two_tables (Insert 7 3) (fresh ())
     = Returns (None, fresh (slot_ApplyOnInsert (base_vtable :: (nat, unit) vtable) 3 (fresh ())))
 \<and> invoke (base_vtable :: (nat, unit) vtable) two_tables (Update 7 3) (fresh ())
     = Returns (None, fresh (slot_ApplyOnUpdate (base_vtable :: (nat, unit) vtable) 3 (fresh ())))
 \<and> invoke (base_vtable :: (nat, unit) vtable) two_tables (Sample 7 3) (fresh ())
     = Returns (None, fresh (slot_ApplyOnSample (base_vtable :: (nat, unit) vtable) 3 (fresh ())))
 \<and> invoke (base_vtable :: (nat, unit) vtable) two_tables (Reset 7) (fresh ())
     = Returns (None, fresh (slot_ApplyOnReset (base_vtable :: (nat, unit) vtable) (fresh ())))"
proof -
  have unbound: "table_field (fresh ()) = nullptr"
    by (simp add: fresh_def)
  from unbound
    dispatch_without_binding [OF unbound, of "base_vtable :: (nat, unit) vtable" two_tables 7 3]
  show ?thesis
    by (rule conjI)
qed

text \<open>
  C10. No dispatch entry point changes the back-reference, whatever the state, the item and
  the hooks of the class.
\<close>

theorem dispatch_keeps_back_reference:
  "table_field (OnDelete vt mu item this) = table_field this
 \<and> table_field (OnInsert vt mu item this) = table_field this
 \<and> table_field (OnUpdate vt mu item this) = table_field this
 \<and> table_field (OnSample vt mu item this) = table_field this
 \<and> table_field (OnReset vt mu this) = table_field this"
  by (simp add: OnDelete_def OnInsert_def OnUpdate_def OnSample_def OnReset_def
      virtual_call_def)

subsection \<open>The binding over a sequence of calls\<close>

lemma map_outcome_Returns:
  "map_outcome f x = Returns y \<longleftrightarrow> (\<exists>z. x = Returns z \<and> y = f z)"
  by (cases x) auto

text \<open>One call that returns moves the back-reference as the spec's reading says.\<close>

lemma invoke_binding:
  assumes "invoke vt m c this = Returns (r, this')"
  shows "table_field this' = most_recent_binding (table_field this) [(c, r)]"
proof (cases c)
  case (Register table)
  with assms show ?thesis
    by (auto simp: RegisterTable_def FailedPrecondition_def Status_OK_def
        split: if_splits option.splits)
next
  case (Unregister mu table)
  with assms show ?thesis
    by (auto simp: UnregisterTable_def REVERB_CHECK_EQ_def split: if_splits)
qed (use assms in \<open>auto simp: OnDelete_def OnInsert_def OnUpdate_def OnSample_def OnReset_def
      virtual_call_def\<close>)

text \<open>The oldest call of a history only matters through the binding it left.\<close>

lemma most_recent_binding_snoc:
  "most_recent_binding before (h @ [e])
     = most_recent_binding (most_recent_binding before [e]) h"
  by (induction "most_recent_binding before [e]" h rule: most_recent_binding.induct) simp_all

lemma run_binding:
  assumes "run vt m cs this = Returns (h, this')"
  shows "table_field this' = most_recent_binding (table_field this) (rev h) \<and> map fst h = cs"
  using assms
proof (induction cs arbitrary: this h)
  case Nil
  then show ?case by auto
next
  case (Cons c cs)
  from Cons.prems obtain r this1 h1 where
    first: "invoke vt m c this = Returns (r, this1)" and
    rest: "run vt m cs this1 = Returns (h1, this')" and
    h: "h = (c, r) # h1"
    by (auto split: outcome.splits prod.splits simp: map_outcome_Returns)
  from Cons.IH [OF rest] invoke_binding [OF first] h show ?case
    by (simp add: most_recent_binding_snoc)
qed

text \<open>
  C7. Take a fresh extension and any sequence of Register, Unregister and dispatch calls that
  the process survives, with the history \<open>h\<close> of the calls and their replies. Afterwards the
  extension is bound to at most one table, and its back-reference is the table argument of
  the most recent successful Register that no Unregister has followed, null when there is
  none.
\<close>

theorem back_reference_is_most_recent_binding:
  assumes "run vt m cs (fresh s) = Returns (h, this)"
  shows "table_field this = most_recent_binding nullptr (rev h)
       \<and> card (bound_tables this) \<le> 1
       \<and> map fst h = cs"
  using run_binding [OF assms] by (simp add: fresh_def bound_tables_def)

theorem back_reference_is_most_recent_binding_witness:
  "run (base_vtable :: (nat, unit) vtable) two_tables
       [Register 1, Register 2, Sample 7 3, Unregister 7 1, Register 2] (fresh ())
     = Returns ([(Register 1, Some Status_OK),
                 (Register 2, Some \<lparr>code = FAILED_PRECONDITION, error_message =
                    ''Attempting to registering a table 0x2 (name: beta) with extension that has already been registered with: 0x1 (name: beta)''\<rparr>),
                 (Sample 7 3, None), (Unregister 7 1, None), (Register 2, Some Status_OK)],
                \<lparr>table_field = 2\<rparr>)
 \<and> table_field \<lparr>table_field = 2\<rparr>
     = most_recent_binding nullptr (rev
         [(Register 1, Some Status_OK),
          (Register 2, Some \<lparr>code = FAILED_PRECONDITION, error_message =
             ''Attempting to registering a table 0x2 (name: beta) with extension that has already been registered with: 0x1 (name: beta)''\<rparr>),
          (Sample 7 (3::nat), None), (Unregister 7 1, None), (Register 2, Some Status_OK)])
 \<and> card (bound_tables \<lparr>table_field = 2\<rparr>) \<le> 1
 \<and> map fst
       [(Register 1, Some Status_OK),
        (Register 2, Some \<lparr>code = FAILED_PRECONDITION, error_message =
           ''Attempting to registering a table 0x2 (name: beta) with extension that has already been registered with: 0x1 (name: beta)''\<rparr>),
        (Sample 7 (3::nat), None), (Unregister 7 1, None), (Register 2, Some Status_OK)]
     = [Register 1, Register 2, Sample 7 3, Unregister 7 1, Register 2]"
proof -
  have ran: "run (base_vtable :: (nat, unit) vtable) two_tables
       [Register 1, Register 2, Sample 7 3, Unregister 7 1, Register 2] (fresh ())
     = Returns ([(Register 1, Some Status_OK),
                 (Register 2, Some \<lparr>code = FAILED_PRECONDITION, error_message =
                    ''Attempting to registering a table 0x2 (name: beta) with extension that has already been registered with: 0x1 (name: beta)''\<rparr>),
                 (Sample 7 3, None), (Unregister 7 1, None), (Register 2, Some Status_OK)],
                \<lparr>table_field = 2\<rparr>)"
    by (simp add: RegisterTable_def UnregisterTable_def REVERB_CHECK_EQ_def
        FailedPrecondition_def two_tables_def fresh_def nullptr_def OnSample_def
        virtual_call_def base_vtable_def ApplyOnSample_def)
  from ran back_reference_is_most_recent_binding [OF ran]
  show ?thesis
    by (rule conjI)
qed

end
